theory Spec2Isabelle
  imports Complex_Main
begin

section \<open>Market-data shapes\<close>

text \<open>
  The client is written in TypeScript. Its \<^verbatim>\<open>number\<close> values are never computed on:
  they are forwarded as query parameters, returned inside a body, or (the HTTP status)
  compared with the literal 200. They are modelled as reals.
\<close>

type_synonym number = real

text \<open>The string-literal union \<^verbatim>\<open>"1" | "3" | ... | "1D" | "1W" | "1M"\<close>.\<close>

datatype KlineTimeframe =
  Tf1 | Tf3 | Tf5 | Tf15 | Tf30 | Tf45 | Tf60 | Tf120 | Tf180 | Tf240 | Tf1D | Tf1W | Tf1M

datatype OrderSide = BUY | SELL

type_synonym BaseQty = number
type_synonym Price = number
type_synonym MakerSide = OrderSide
type_synonym TimestampMs = number
type_synonym DateTime = string

type_synonym Trade = "BaseQty \<times> Price \<times> MakerSide \<times> TimestampMs"

record Kline =
  close :: number
  high :: number
  low :: number
  "open" :: number
  pair :: string
  timeframe :: KlineTimeframe
  timestamp :: number
  volume :: number

record PairPrecision =
  Amount :: number
  Price :: number
  Total :: number

record PairOrderLimit =
  Base :: number
  Quote :: number

record Pair =
  Id :: string
  Symbol :: string
  Base :: string
  Quote :: string
  Precision :: PairPrecision
  Orderprecision :: PairPrecision
  MinOrder :: PairOrderLimit
  MaxOrder :: PairOrderLimit
  Status :: bool
  CreatedAt :: DateTime
  UpdatedAt :: DateTime
  ListingPrice :: number
  Mode :: string

record TickerChartPoint =
  Time :: number
  Close :: number

type_synonym TickerChart = "TickerChartPoint list"

record Ticker =
  bestAsk :: number
  bestBid :: number
  change :: number
  chart :: TickerChart
  equivalent :: number
  high :: number
  last24Price :: number
  lastPrice :: number
  lastUpdated :: number
  low :: number
  symbol :: string
  usdVolume :: number
  volume :: number

section \<open>Request parameters\<close>

record OrderbookRequestParams =
  pair :: string

record KlineRequestParams =
  pair :: string
  resolution :: KlineTimeframe
  "from" :: number
  to :: number

record TradeRequestParams =
  pair :: string
  offset :: number

record PairRequestParams =
  pair :: string

record TickerRequestParams =
  pair :: string

section \<open>Response envelope and endpoint payloads\<close>

text \<open>\<^verbatim>\<open>ApiResponse<DataType>\<close>; the optional \<^verbatim>\<open>count\<close> is an option.\<close>

record 'd ApiResponse =
  data :: 'd
  count :: "number option"
  message :: string
  status :: string

record OrderbookData =
  buy :: "(number \<times> number) list"
  sell :: "(number \<times> number) list"

type_synonym KlineData = "Kline list"
type_synonym TradeData = "Trade list"
type_synonym PairsData = "Pair list"
type_synonym PairData = Pair
type_synonym TickersData = "string \<rightharpoonup> Ticker"
type_synonym TickerData = Ticker

section \<open>The HTTP transport\<close>

text \<open>
  The transport is the axios library, which is not part of the repository. What the
  client hands to it and what it can hand back are modelled as follows.

  \<^item> \<^verbatim>\<open>params?: any\<close> of the two helpers: the values the client passes are the five
    parameter records, or nothing (\<open>None\<close> is \<^verbatim>\<open>undefined\<close>).
  \<^item> The object literal given to \<^verbatim>\<open>axiosInstance.get\<close> is an \<open>AxiosRequestConfig\<close>.
  \<^item> \<^verbatim>\<open>axios.create(axiosConfig)\<close> yields an instance that remembers the defaults it
    was created with; the defaults themselves are opaque to the client.
  \<^item> One call \<^verbatim>\<open>this.axiosInstance.get(path, cfg)\<close> is a \<open>GetCall\<close>: the instance it
    was made on and its two arguments.
  \<^item> Awaiting the call either yields a response or rethrows what the transport
    rejected with: an axios error, which has a message, possibly a code, and, when a
    response did arrive but its status was refused, that response. The check of the
    status that decides between the two is axios's \<^verbatim>\<open>validateStatus\<close>; the client
    sets none, so the one in force is the caller's \<^verbatim>\<open>axiosConfig\<close> or, without it,
    axios's default, which accepts the statuses from 200 to 299 only.
\<close>

datatype any =
  OrderbookParams OrderbookRequestParams
| KlineParams KlineRequestParams
| TradeParams TradeRequestParams
| PairParams PairRequestParams
| TickerParams TickerRequestParams

record AxiosRequestConfig =
  "method" :: string
  baseURL :: string
  headers :: "(string \<times> string) list"
  params :: "any option"

typedecl CreateAxiosDefaults

datatype AxiosInstance = axios_create "CreateAxiosDefaults option"

record GetCall =
  on_instance :: AxiosInstance
  url :: string
  request_config :: AxiosRequestConfig

record 'b AxiosResponse =
  data :: 'b
  status :: number
  statusText :: string
  headers :: "(string \<times> string) list"

datatype 'b AxiosError = AxiosError string "string option" "'b AxiosResponse option"

datatype 'b settled = Resolved "'b AxiosResponse" | Rejected "'b AxiosError"

text \<open>What an operation can throw: the response itself, or the transport's rejection.\<close>

datatype 'b thrown = Raw_response "'b AxiosResponse" | Transport_rejection "'b AxiosError"

section \<open>The client\<close>

record PublicRestClientConfig =
  baseUrl :: "string option"
  klineUrl :: "string option"

record PublicRestClient =
  config :: PublicRestClientConfig
  axiosInstance :: AxiosInstance
  baseUrl :: string
  klineUrl :: string

text \<open>
  The methods are asynchronous and run on \<^verbatim>\<open>this\<close>. A method is modelled as a function
  of the state it runs in: the client object and the list of calls made on the
  transport so far. It takes the settled value of its awaited transport call as an
  argument, and returns what it returns or throws (\<open>Inr\<close> or \<open>Inl\<close>) with the state after.
\<close>

record world =
  client :: PublicRestClient
  requests :: "GetCall list"

type_synonym 'd outcome = "('d ApiResponse thrown + 'd ApiResponse) \<times> world"

definition defaultConfig_baseUrl :: string where
  "defaultConfig_baseUrl = ''https://exchange-api.lcx.com/''"

definition defaultConfig_klineUrl :: string where
  "defaultConfig_klineUrl = ''https://api-kline.lcx.com/''"

definition defaultConfig :: PublicRestClientConfig where
  "defaultConfig =
     \<lparr>PublicRestClientConfig.baseUrl = Some defaultConfig_baseUrl,
      PublicRestClientConfig.klineUrl = Some defaultConfig_klineUrl\<rparr>"

definition constructor ::
  "PublicRestClientConfig option \<Rightarrow> CreateAxiosDefaults option \<Rightarrow> PublicRestClient" where
  "constructor config' axiosConfig =
     (let this_config = (case config' of Some c \<Rightarrow> c | None \<Rightarrow> defaultConfig)
      in \<lparr>config = this_config,
          axiosInstance = axios_create axiosConfig,
          baseUrl = (case PublicRestClientConfig.baseUrl this_config of
                       Some u \<Rightarrow> u | None \<Rightarrow> defaultConfig_baseUrl),
          klineUrl = (case PublicRestClientConfig.klineUrl this_config of
                        Some u \<Rightarrow> u | None \<Rightarrow> defaultConfig_klineUrl)\<rparr>)"

definition getWithBaseUrl ::
  "string \<Rightarrow> any option \<Rightarrow> 'd ApiResponse settled \<Rightarrow> world \<Rightarrow> 'd outcome" where
  "getWithBaseUrl path params' awaited w =
     (let w' = w\<lparr>requests := requests w @
                  [\<lparr>on_instance = axiosInstance (client w),
                    url = path,
                    request_config =
                      \<lparr>method = ''get'',
                       baseURL = baseUrl (client w),
                       AxiosRequestConfig.headers = [(''Content-Type'', ''application/json'')],
                       params = params'\<rparr>\<rparr>]\<rparr>
      in case awaited of
           Rejected e \<Rightarrow> (Inl (Transport_rejection e), w')
         | Resolved axiosResponse \<Rightarrow>
             if AxiosResponse.status axiosResponse = 200
             then (Inr (AxiosResponse.data axiosResponse), w')
             else (Inl (Raw_response axiosResponse), w'))"

definition getWithKlineUrl ::
  "string \<Rightarrow> any option \<Rightarrow> 'd ApiResponse settled \<Rightarrow> world \<Rightarrow> 'd outcome" where
  "getWithKlineUrl path params' awaited w =
     (let w' = w\<lparr>requests := requests w @
                  [\<lparr>on_instance = axiosInstance (client w),
                    url = path,
                    request_config =
                      \<lparr>method = ''get'',
                       baseURL = klineUrl (client w),
                       AxiosRequestConfig.headers = [(''Content-Type'', ''application/json'')],
                       params = params'\<rparr>\<rparr>]\<rparr>
      in case awaited of
           Rejected e \<Rightarrow> (Inl (Transport_rejection e), w')
         | Resolved axiosResponse \<Rightarrow>
             if AxiosResponse.status axiosResponse = 200
             then (Inr (AxiosResponse.data axiosResponse), w')
             else (Inl (Raw_response axiosResponse), w'))"

definition getOrderbook ::
  "OrderbookRequestParams \<Rightarrow> OrderbookData ApiResponse settled \<Rightarrow> world
     \<Rightarrow> OrderbookData outcome" where
  "getOrderbook params' = getWithBaseUrl ''/api/book'' (Some (OrderbookParams params'))"

definition getKline ::
  "KlineRequestParams \<Rightarrow> KlineData ApiResponse settled \<Rightarrow> world \<Rightarrow> KlineData outcome" where
  "getKline params' = getWithKlineUrl ''/v1/market/kline'' (Some (KlineParams params'))"

definition getTrades ::
  "TradeRequestParams \<Rightarrow> TradeData ApiResponse settled \<Rightarrow> world \<Rightarrow> TradeData outcome" where
  "getTrades params' = getWithBaseUrl ''/api/trades'' (Some (TradeParams params'))"

definition getPairs ::
  "PairsData ApiResponse settled \<Rightarrow> world \<Rightarrow> PairsData outcome" where
  "getPairs = getWithBaseUrl ''/api/pairs'' None"

definition getPair ::
  "PairRequestParams \<Rightarrow> PairData ApiResponse settled \<Rightarrow> world \<Rightarrow> PairData outcome" where
  "getPair params' = getWithBaseUrl ''/api/pair'' (Some (PairParams params'))"

definition getTickers ::
  "TickersData ApiResponse settled \<Rightarrow> world \<Rightarrow> TickersData outcome" where
  "getTickers = getWithBaseUrl ''/api/tickers'' None"

definition getTicker ::
  "TickerRequestParams \<Rightarrow> TickerData ApiResponse settled \<Rightarrow> world \<Rightarrow> TickerData outcome" where
  "getTicker params' = getWithBaseUrl ''/api/ticker'' (Some (TickerParams params'))"

section \<open>Sequences of calls on one client\<close>

text \<open>
  A caller's use of a client is a list of calls made one after another on the same
  object. Each entry names the method, its argument, and the settled value its own
  transport call is going to have; \<open>invoke\<close> dispatches to the method and \<open>run\<close>
  threads the state through the list.
\<close>

datatype invocation =
  Call_getOrderbook OrderbookRequestParams "OrderbookData ApiResponse settled"
| Call_getKline KlineRequestParams "KlineData ApiResponse settled"
| Call_getTrades TradeRequestParams "TradeData ApiResponse settled"
| Call_getPairs "PairsData ApiResponse settled"
| Call_getPair PairRequestParams "PairData ApiResponse settled"
| Call_getTickers "TickersData ApiResponse settled"
| Call_getTicker TickerRequestParams "TickerData ApiResponse settled"

datatype completion =
  Done_getOrderbook "OrderbookData ApiResponse thrown + OrderbookData ApiResponse"
| Done_getKline "KlineData ApiResponse thrown + KlineData ApiResponse"
| Done_getTrades "TradeData ApiResponse thrown + TradeData ApiResponse"
| Done_getPairs "PairsData ApiResponse thrown + PairsData ApiResponse"
| Done_getPair "PairData ApiResponse thrown + PairData ApiResponse"
| Done_getTickers "TickersData ApiResponse thrown + TickersData ApiResponse"
| Done_getTicker "TickerData ApiResponse thrown + TickerData ApiResponse"

fun invoke :: "invocation \<Rightarrow> world \<Rightarrow> completion \<times> world" where
  "invoke (Call_getOrderbook p a) w = (let (r, w') = getOrderbook p a w in (Done_getOrderbook r, w'))"
| "invoke (Call_getKline p a) w = (let (r, w') = getKline p a w in (Done_getKline r, w'))"
| "invoke (Call_getTrades p a) w = (let (r, w') = getTrades p a w in (Done_getTrades r, w'))"
| "invoke (Call_getPairs a) w = (let (r, w') = getPairs a w in (Done_getPairs r, w'))"
| "invoke (Call_getPair p a) w = (let (r, w') = getPair p a w in (Done_getPair r, w'))"
| "invoke (Call_getTickers a) w = (let (r, w') = getTickers a w in (Done_getTickers r, w'))"
| "invoke (Call_getTicker p a) w = (let (r, w') = getTicker p a w in (Done_getTicker r, w'))"

fun run :: "invocation list \<Rightarrow> world \<Rightarrow> completion list \<times> world" where
  "run [] w = ([], w)"
| "run (c # cs) w =
     (let (r, w') = invoke c w; (rs, w'') = run cs w' in (r # rs, w''))"

text \<open>The base URL a call is expected to go to: the kline URL for getKline, else the main one.\<close>

fun expected_base :: "PublicRestClient \<Rightarrow> invocation \<Rightarrow> string" where
  "expected_base c (Call_getKline p a) = klineUrl c"
| "expected_base c _ = baseUrl c"

section \<open>One helper with the base URL as a parameter\<close>

text \<open>
  The helper the two private helpers are compared with: it is not in the source. It
  does what they do, with the base URL given by the caller.
\<close>

definition getWithUrl ::
  "string \<Rightarrow> string \<Rightarrow> any option \<Rightarrow> 'd ApiResponse settled \<Rightarrow> world \<Rightarrow> 'd outcome" where
  "getWithUrl base path params' awaited w =
     (let call = \<lparr>on_instance = axiosInstance (client w), url = path,
                  request_config =
                    \<lparr>method = ''get'', baseURL = base,
                     AxiosRequestConfig.headers = [(''Content-Type'', ''application/json'')],
                     params = params'\<rparr>\<rparr>;
          w' = w\<lparr>requests := requests w @ [call]\<rparr>
      in (case awaited of
            Resolved axiosResponse \<Rightarrow>
              (if AxiosResponse.status axiosResponse = 200
               then Inr (AxiosResponse.data axiosResponse)
               else Inl (Raw_response axiosResponse))
          | Rejected e \<Rightarrow> Inl (Transport_rejection e),
          w'))"

section \<open>Sample values\<close>

text \<open>
  A freshly constructed client that has made no call yet, the pair name the
  repository's tests use, and one response per outcome of interest.
\<close>

definition fresh :: world where
  "fresh = \<lparr>client = constructor None None, requests = []\<rparr>"

definition testPair :: string where
  "testPair = ''LCX/USDC''"

definition envelope :: "'d \<Rightarrow> string \<Rightarrow> 'd ApiResponse" where
  "envelope d s = \<lparr>ApiResponse.data = d, count = None, message = ''sample'', ApiResponse.status = s\<rparr>"

definition ok :: "'d \<Rightarrow> 'd ApiResponse AxiosResponse" where
  "ok d = \<lparr>AxiosResponse.data = envelope d ''success'', AxiosResponse.status = 200,
           statusText = ''OK'', AxiosResponse.headers = []\<rparr>"

definition not_found :: "'d \<Rightarrow> 'd ApiResponse AxiosResponse" where
  "not_found d = \<lparr>AxiosResponse.data = envelope d ''error'', AxiosResponse.status = 404,
                  statusText = ''Not Found'', AxiosResponse.headers = []\<rparr>"

definition non_authoritative :: "'d \<Rightarrow> 'd ApiResponse AxiosResponse" where
  "non_authoritative d =
     \<lparr>AxiosResponse.data = envelope d ''success'', AxiosResponse.status = 203,
      statusText = ''Non-Authoritative Information'', AxiosResponse.headers = []\<rparr>"

definition refused_404 :: "'d \<Rightarrow> 'd ApiResponse AxiosError" where
  "refused_404 d =
     AxiosError ''Request failed with status code 404'' (Some ''ERR_BAD_REQUEST'')
       (Some (not_found d))"

definition sample_book :: OrderbookData where
  "sample_book = \<lparr>buy = [(0.25, 100)], sell = [(0.26, 40)]\<rparr>"

definition sample_pair :: Pair where
  "sample_pair =
     \<lparr>Id = ''1'', Symbol = ''LCX/USDC'', Pair.Base = ''LCX'', Pair.Quote = ''USDC'',
      Precision = \<lparr>Amount = 1, Price = 4, Total = 8\<rparr>,
      Orderprecision = \<lparr>Amount = 1, Price = 4, Total = 8\<rparr>,
      MinOrder = \<lparr>PairOrderLimit.Base = 20, PairOrderLimit.Quote = 1\<rparr>,
      MaxOrder = \<lparr>PairOrderLimit.Base = 1000000, PairOrderLimit.Quote = 100000\<rparr>,
      Status = True,
      CreatedAt = ''2021-04-10T16:31:46.863+05:30'',
      UpdatedAt = ''2021-04-10T16:31:46.863+05:30'',
      ListingPrice = 0.25, Mode = ''TRADING''\<rparr>"

definition sample_ticker :: Ticker where
  "sample_ticker =
     \<lparr>bestAsk = 0.26, bestBid = 0.25, change = 1, chart = [\<lparr>Time = 1700000000, Close = 0.25\<rparr>],
      equivalent = 0.25, Ticker.high = 0.27, last24Price = 0.24, lastPrice = 0.25,
      lastUpdated = 1700000000, Ticker.low = 0.23, symbol = ''LCX/USDC'',
      usdVolume = 1000, Ticker.volume = 4000\<rparr>"

section \<open>Facts about the two private helpers\<close>

text \<open>
  Both helpers settle in the same way on a response, and both add exactly one call to
  the list of calls made on the transport, whatever the awaited call settles to.
\<close>

lemmas helper_defs = getWithBaseUrl_def getWithKlineUrl_def Let_def

lemmas operation_defs =
  getOrderbook_def getKline_def getTrades_def getPairs_def getPair_def getTickers_def
  getTicker_def

lemma getWithBaseUrl_result:
  "fst (getWithBaseUrl path ps (Resolved r) w) =
     (if AxiosResponse.status r = 200 then Inr (AxiosResponse.data r) else Inl (Raw_response r))"
  by (simp add: helper_defs)

lemma getWithKlineUrl_result:
  "fst (getWithKlineUrl path ps (Resolved r) w) =
     (if AxiosResponse.status r = 200 then Inr (AxiosResponse.data r) else Inl (Raw_response r))"
  by (simp add: helper_defs)

lemma getWithBaseUrl_world:
  "snd (getWithBaseUrl path ps a w) =
     w\<lparr>requests := requests w @
       [\<lparr>on_instance = axiosInstance (client w), url = path,
         request_config =
           \<lparr>method = ''get'', baseURL = baseUrl (client w),
            AxiosRequestConfig.headers = [(''Content-Type'', ''application/json'')],
            params = ps\<rparr>\<rparr>]\<rparr>"
  by (simp add: helper_defs split: settled.split)

lemma getWithKlineUrl_world:
  "snd (getWithKlineUrl path ps a w) =
     w\<lparr>requests := requests w @
       [\<lparr>on_instance = axiosInstance (client w), url = path,
         request_config =
           \<lparr>method = ''get'', baseURL = klineUrl (client w),
            AxiosRequestConfig.headers = [(''Content-Type'', ''application/json'')],
            params = ps\<rparr>\<rparr>]\<rparr>"
  by (simp add: helper_defs split: settled.split)

lemmas result_simps = operation_defs getWithBaseUrl_result getWithKlineUrl_result

lemma getWithBaseUrl_rethrows:
  "fst (getWithBaseUrl path ps (Rejected e) w) = Inl (Transport_rejection e)"
  by (simp add: helper_defs)

lemma getWithKlineUrl_rethrows:
  "fst (getWithKlineUrl path ps (Rejected e) w) = Inl (Transport_rejection e)"
  by (simp add: helper_defs)

lemmas rethrow_simps = getWithBaseUrl_rethrows getWithKlineUrl_rethrows

lemmas request_simps = operation_defs getWithBaseUrl_world getWithKlineUrl_world

section \<open>Facts about sequences of calls\<close>

lemma invoke_client: "client (snd (invoke c w)) = client w"
  by (cases c) (simp_all add: split_beta request_simps)

lemma invoke_result_any_world: "fst (invoke c w) = fst (invoke c w')"
  by (cases c) (simp_all add: split_beta operation_defs helper_defs split: settled.split)

lemma invoke_base_url:
  "map (\<lambda>q. baseURL (request_config q)) (requests (snd (invoke c w))) =
     map (\<lambda>q. baseURL (request_config q)) (requests w) @ [expected_base (client w) c]"
  by (cases c) (simp_all add: split_beta request_simps)

lemma run_client: "client (snd (run cs w)) = client w"
proof (induction cs arbitrary: w)
  case Nil
  show ?case by simp
next
  case (Cons c cs)
  have "client (snd (run (c # cs) w)) = client (snd (run cs (snd (invoke c w))))"
    by (simp add: split_beta)
  also have "\<dots> = client (snd (invoke c w))"
    by (rule Cons.IH)
  also have "\<dots> = client w"
    by (rule invoke_client)
  finally show ?case .
qed

lemma run_results: "fst (run cs w) = map (\<lambda>c. fst (invoke c w')) cs"
proof (induction cs arbitrary: w)
  case Nil
  show ?case by simp
next
  case (Cons c cs)
  have "fst (run (c # cs) w) = fst (invoke c w) # fst (run cs (snd (invoke c w)))"
    by (simp add: split_beta)
  moreover have "fst (invoke c w) = fst (invoke c w')"
    by (rule invoke_result_any_world)
  ultimately show ?case
    using Cons.IH by simp
qed

lemma run_base_urls:
  "map (\<lambda>q. baseURL (request_config q)) (requests (snd (run cs w))) =
     map (\<lambda>q. baseURL (request_config q)) (requests w) @ map (expected_base (client w)) cs"
proof (induction cs arbitrary: w)
  case Nil
  show ?case by simp
next
  case (Cons c cs)
  have "snd (run (c # cs) w) = snd (run cs (snd (invoke c w)))"
    by (simp add: split_beta)
  then show ?case
    using Cons.IH [of "snd (invoke c w)"] by (simp add: invoke_base_url invoke_client)
qed

section \<open>Status handling\<close>


text \<open>
  Claim C2, as amended. For each public operation the value thrown is what the
  transport delivered, unmodified and not translated into a domain error: when the
  transport resolves the awaited call with a response whose status is not 200, the
  value thrown is that very response, so the caller reads the status code from it; when
  the transport itself rejects the awaited call, the value thrown is the transport's
  rejection.
\<close>

theorem thrown_value_is_what_transport_delivered:
  "(\<forall>p r w. AxiosResponse.status r \<noteq> 200 \<longrightarrow> fst (getOrderbook p (Resolved r) w) = Inl (Raw_response r))
 \<and> (\<forall>p e w. fst (getOrderbook p (Rejected e) w) = Inl (Transport_rejection e))
 \<and> (\<forall>p r w. AxiosResponse.status r \<noteq> 200 \<longrightarrow> fst (getKline p (Resolved r) w) = Inl (Raw_response r))
 \<and> (\<forall>p e w. fst (getKline p (Rejected e) w) = Inl (Transport_rejection e))
 \<and> (\<forall>p r w. AxiosResponse.status r \<noteq> 200 \<longrightarrow> fst (getTrades p (Resolved r) w) = Inl (Raw_response r))
 \<and> (\<forall>p e w. fst (getTrades p (Rejected e) w) = Inl (Transport_rejection e))
 \<and> (\<forall>r w. AxiosResponse.status r \<noteq> 200 \<longrightarrow> fst (getPairs (Resolved r) w) = Inl (Raw_response r))
 \<and> (\<forall>e w. fst (getPairs (Rejected e) w) = Inl (Transport_rejection e))
 \<and> (\<forall>p r w. AxiosResponse.status r \<noteq> 200 \<longrightarrow> fst (getPair p (Resolved r) w) = Inl (Raw_response r))
 \<and> (\<forall>p e w. fst (getPair p (Rejected e) w) = Inl (Transport_rejection e))
 \<and> (\<forall>r w. AxiosResponse.status r \<noteq> 200 \<longrightarrow> fst (getTickers (Resolved r) w) = Inl (Raw_response r))
 \<and> (\<forall>e w. fst (getTickers (Rejected e) w) = Inl (Transport_rejection e))
 \<and> (\<forall>p r w. AxiosResponse.status r \<noteq> 200 \<longrightarrow> fst (getTicker p (Resolved r) w) = Inl (Raw_response r))
 \<and> (\<forall>p e w. fst (getTicker p (Rejected e) w) = Inl (Transport_rejection e))"
  by (simp add: result_simps rethrow_simps)

text \<open>
  The operations called with the arguments of the repository's tests on a fresh
  client, the transport resolving with status 203 each time, a status that axios's
  default \<^verbatim>\<open>validateStatus\<close> accepts.
\<close>

theorem thrown_value_is_what_transport_delivered_witness:
  "AxiosResponse.status (non_authoritative sample_book) \<noteq> 200
 \<and> fst (getOrderbook \<lparr>OrderbookRequestParams.pair = testPair\<rparr> (Resolved (non_authoritative sample_book)) fresh)
      = Inl (Raw_response (non_authoritative sample_book))
 \<and> AxiosResponse.status (non_authoritative ([] :: Kline list)) \<noteq> 200
 \<and> fst (getKline \<lparr>KlineRequestParams.pair = testPair, resolution = Tf1, from = 1700000000, to = 1700003600\<rparr> (Resolved (non_authoritative ([] :: Kline list))) fresh)
      = Inl (Raw_response (non_authoritative ([] :: Kline list)))
 \<and> AxiosResponse.status (non_authoritative [(100, 0.25, BUY, 1700000000000)]) \<noteq> 200
 \<and> fst (getTrades \<lparr>TradeRequestParams.pair = testPair, offset = 1\<rparr> (Resolved (non_authoritative [(100, 0.25, BUY, 1700000000000)])) fresh)
      = Inl (Raw_response (non_authoritative [(100, 0.25, BUY, 1700000000000)]))
 \<and> AxiosResponse.status (non_authoritative [sample_pair]) \<noteq> 200
 \<and> fst (getPairs (Resolved (non_authoritative [sample_pair])) fresh)
      = Inl (Raw_response (non_authoritative [sample_pair]))
 \<and> AxiosResponse.status (non_authoritative sample_pair) \<noteq> 200
 \<and> fst (getPair \<lparr>PairRequestParams.pair = testPair\<rparr> (Resolved (non_authoritative sample_pair)) fresh)
      = Inl (Raw_response (non_authoritative sample_pair))
 \<and> AxiosResponse.status (non_authoritative [testPair \<mapsto> sample_ticker]) \<noteq> 200
 \<and> fst (getTickers (Resolved (non_authoritative [testPair \<mapsto> sample_ticker])) fresh)
      = Inl (Raw_response (non_authoritative [testPair \<mapsto> sample_ticker]))
 \<and> AxiosResponse.status (non_authoritative sample_ticker) \<noteq> 200
 \<and> fst (getTicker \<lparr>TickerRequestParams.pair = testPair\<rparr> (Resolved (non_authoritative sample_ticker)) fresh)
      = Inl (Raw_response (non_authoritative sample_ticker))"
  using thrown_value_is_what_transport_delivered by (simp add: non_authoritative_def)

text \<open>
  Claim C2 as it was stated fails where the status is refused by the transport. A fresh
  client has no \<^verbatim>\<open>validateStatus\<close> of its own, so a 404 reaches \<open>getPair\<close> as an
  axios error that carries the response. The call fails because of the status, and the
  value thrown is that error, not the response object.
\<close>

theorem refused_status_throws_axios_error_counterexample:
  "AxiosResponse.status (not_found sample_pair) \<noteq> 200
 \<and> isl (fst (getPair \<lparr>PairRequestParams.pair = testPair\<rparr> (Rejected (refused_404 sample_pair)) fresh))
 \<and> fst (getPair \<lparr>PairRequestParams.pair = testPair\<rparr> (Rejected (refused_404 sample_pair)) fresh)
      = Inl (Transport_rejection (refused_404 sample_pair))
 \<and> fst (getPair \<lparr>PairRequestParams.pair = testPair\<rparr> (Rejected (refused_404 sample_pair)) fresh)
      \<noteq> Inl (Raw_response (not_found sample_pair))"
  by (simp add: getPair_def getWithBaseUrl_rethrows not_found_def)

text \<open>
  Claim C5. For each public operation, on a response with status 200 the value
  returned is exactly the body of the response: the envelope of \<open>status\<close>,
  \<open>message\<close>, optional \<open>count\<close> and the endpoint's \<open>data\<close>, as parsed by the transport.
\<close>

theorem status_200_returns_body:
  "(\<forall>p r w. AxiosResponse.status r = 200 \<longrightarrow> fst (getOrderbook p (Resolved r) w) = Inr (AxiosResponse.data r))
 \<and> (\<forall>p r w. AxiosResponse.status r = 200 \<longrightarrow> fst (getKline p (Resolved r) w) = Inr (AxiosResponse.data r))
 \<and> (\<forall>p r w. AxiosResponse.status r = 200 \<longrightarrow> fst (getTrades p (Resolved r) w) = Inr (AxiosResponse.data r))
 \<and> (\<forall>r w. AxiosResponse.status r = 200 \<longrightarrow> fst (getPairs (Resolved r) w) = Inr (AxiosResponse.data r))
 \<and> (\<forall>p r w. AxiosResponse.status r = 200 \<longrightarrow> fst (getPair p (Resolved r) w) = Inr (AxiosResponse.data r))
 \<and> (\<forall>r w. AxiosResponse.status r = 200 \<longrightarrow> fst (getTickers (Resolved r) w) = Inr (AxiosResponse.data r))
 \<and> (\<forall>p r w. AxiosResponse.status r = 200 \<longrightarrow> fst (getTicker p (Resolved r) w) = Inr (AxiosResponse.data r))"
  by (simp add: result_simps)

text \<open>
  The same calls with the transport answering 200: each returns the envelope it was
  given.
\<close>

theorem status_200_returns_body_witness:
  "AxiosResponse.status (ok sample_book) = 200
 \<and> fst (getOrderbook \<lparr>OrderbookRequestParams.pair = testPair\<rparr> (Resolved (ok sample_book)) fresh) = Inr (envelope sample_book ''success'')
 \<and> AxiosResponse.status (ok ([] :: Kline list)) = 200
 \<and> fst (getKline \<lparr>KlineRequestParams.pair = testPair, resolution = Tf1, from = 1700000000, to = 1700003600\<rparr> (Resolved (ok ([] :: Kline list))) fresh) = Inr (envelope ([] :: Kline list) ''success'')
 \<and> AxiosResponse.status (ok [(100, 0.25, BUY, 1700000000000)]) = 200
 \<and> fst (getTrades \<lparr>TradeRequestParams.pair = testPair, offset = 1\<rparr> (Resolved (ok [(100, 0.25, BUY, 1700000000000)])) fresh) = Inr (envelope [(100, 0.25, BUY, 1700000000000)] ''success'')
 \<and> AxiosResponse.status (ok [sample_pair]) = 200
 \<and> fst (getPairs (Resolved (ok [sample_pair])) fresh) = Inr (envelope [sample_pair] ''success'')
 \<and> AxiosResponse.status (ok sample_pair) = 200
 \<and> fst (getPair \<lparr>PairRequestParams.pair = testPair\<rparr> (Resolved (ok sample_pair)) fresh) = Inr (envelope sample_pair ''success'')
 \<and> AxiosResponse.status (ok [testPair \<mapsto> sample_ticker]) = 200
 \<and> fst (getTickers (Resolved (ok [testPair \<mapsto> sample_ticker])) fresh) = Inr (envelope [testPair \<mapsto> sample_ticker] ''success'')
 \<and> AxiosResponse.status (ok sample_ticker) = 200
 \<and> fst (getTicker \<lparr>TickerRequestParams.pair = testPair\<rparr> (Resolved (ok sample_ticker)) fresh) = Inr (envelope sample_ticker ''success'')"
  using status_200_returns_body by (simp add: ok_def)

section \<open>The outgoing request\<close>

text \<open>
  Claim C3. Whatever the arguments and however the transport call settles, each public
  operation makes its one call with its fixed path and the right base URL:
  \<^verbatim>\<open>/api/book\<close>, \<^verbatim>\<open>/api/trades\<close>, \<^verbatim>\<open>/api/pairs\<close>, \<^verbatim>\<open>/api/pair\<close>, \<^verbatim>\<open>/api/tickers\<close> and
  \<^verbatim>\<open>/api/ticker\<close> with the client's main base URL, and getKline alone
  \<^verbatim>\<open>/v1/market/kline\<close> with the client's kline base URL.
\<close>

theorem request_path_and_base_url:
  "(\<forall>p a w. \<exists>c. requests (snd (getOrderbook p a w)) = requests w @ [c]
        \<and> url c = ''/api/book'' \<and> baseURL (request_config c) = baseUrl (client w))
 \<and> (\<forall>p a w. \<exists>c. requests (snd (getKline p a w)) = requests w @ [c]
        \<and> url c = ''/v1/market/kline'' \<and> baseURL (request_config c) = klineUrl (client w))
 \<and> (\<forall>p a w. \<exists>c. requests (snd (getTrades p a w)) = requests w @ [c]
        \<and> url c = ''/api/trades'' \<and> baseURL (request_config c) = baseUrl (client w))
 \<and> (\<forall>a w. \<exists>c. requests (snd (getPairs a w)) = requests w @ [c]
        \<and> url c = ''/api/pairs'' \<and> baseURL (request_config c) = baseUrl (client w))
 \<and> (\<forall>p a w. \<exists>c. requests (snd (getPair p a w)) = requests w @ [c]
        \<and> url c = ''/api/pair'' \<and> baseURL (request_config c) = baseUrl (client w))
 \<and> (\<forall>a w. \<exists>c. requests (snd (getTickers a w)) = requests w @ [c]
        \<and> url c = ''/api/tickers'' \<and> baseURL (request_config c) = baseUrl (client w))
 \<and> (\<forall>p a w. \<exists>c. requests (snd (getTicker p a w)) = requests w @ [c]
        \<and> url c = ''/api/ticker'' \<and> baseURL (request_config c) = baseUrl (client w))"
  by (simp add: request_simps)

text \<open>
  Claim C4. For each public operation that takes a parameter record, the record the
  caller supplied is the \<open>params\<close> of the one call made, unchanged: all its fields, among
  them the \<open>offset\<close> of getTrades and the \<open>resolution\<close> of getKline, are the caller's.
\<close>

theorem params_forwarded_verbatim:
  "(\<forall>p a w. \<exists>c. requests (snd (getOrderbook p a w)) = requests w @ [c]
        \<and> params (request_config c) = Some (OrderbookParams p))
 \<and> (\<forall>p a w. \<exists>c. requests (snd (getKline p a w)) = requests w @ [c]
        \<and> params (request_config c) = Some (KlineParams p))
 \<and> (\<forall>p a w. \<exists>c. requests (snd (getTrades p a w)) = requests w @ [c]
        \<and> params (request_config c) = Some (TradeParams p))
 \<and> (\<forall>p a w. \<exists>c. requests (snd (getPair p a w)) = requests w @ [c]
        \<and> params (request_config c) = Some (PairParams p))
 \<and> (\<forall>p a w. \<exists>c. requests (snd (getTicker p a w)) = requests w @ [c]
        \<and> params (request_config c) = Some (TickerParams p))"
  by (simp add: request_simps)

text \<open>
  Claim C8. Each public operation makes exactly one call on the transport, a
  \<^verbatim>\<open>get\<close> on the client's own instance with method \<^verbatim>\<open>"get"\<close>, and the headers it
  hands over are \<^verbatim>\<open>Content-Type: application/json\<close>.
\<close>

theorem one_get_request_with_json_header:
  "(\<forall>p a w. \<exists>c. requests (snd (getOrderbook p a w)) = requests w @ [c]
        \<and> on_instance c = axiosInstance (client w)
        \<and> method (request_config c) = ''get''
        \<and> AxiosRequestConfig.headers (request_config c) = [(''Content-Type'', ''application/json'')])
 \<and> (\<forall>p a w. \<exists>c. requests (snd (getKline p a w)) = requests w @ [c]
        \<and> on_instance c = axiosInstance (client w)
        \<and> method (request_config c) = ''get''
        \<and> AxiosRequestConfig.headers (request_config c) = [(''Content-Type'', ''application/json'')])
 \<and> (\<forall>p a w. \<exists>c. requests (snd (getTrades p a w)) = requests w @ [c]
        \<and> on_instance c = axiosInstance (client w)
        \<and> method (request_config c) = ''get''
        \<and> AxiosRequestConfig.headers (request_config c) = [(''Content-Type'', ''application/json'')])
 \<and> (\<forall>a w. \<exists>c. requests (snd (getPairs a w)) = requests w @ [c]
        \<and> on_instance c = axiosInstance (client w)
        \<and> method (request_config c) = ''get''
        \<and> AxiosRequestConfig.headers (request_config c) = [(''Content-Type'', ''application/json'')])
 \<and> (\<forall>p a w. \<exists>c. requests (snd (getPair p a w)) = requests w @ [c]
        \<and> on_instance c = axiosInstance (client w)
        \<and> method (request_config c) = ''get''
        \<and> AxiosRequestConfig.headers (request_config c) = [(''Content-Type'', ''application/json'')])
 \<and> (\<forall>a w. \<exists>c. requests (snd (getTickers a w)) = requests w @ [c]
        \<and> on_instance c = axiosInstance (client w)
        \<and> method (request_config c) = ''get''
        \<and> AxiosRequestConfig.headers (request_config c) = [(''Content-Type'', ''application/json'')])
 \<and> (\<forall>p a w. \<exists>c. requests (snd (getTicker p a w)) = requests w @ [c]
        \<and> on_instance c = axiosInstance (client w)
        \<and> method (request_config c) = ''get''
        \<and> AxiosRequestConfig.headers (request_config c) = [(''Content-Type'', ''application/json'')])"
  by (simp add: request_simps)

text \<open>
  Claim C10. getPairs and getTickers make their call with \<open>params\<close> undefined,
  on every invocation.
\<close>

theorem getPairs_getTickers_send_no_params:
  "(\<forall>a w. \<exists>c. requests (snd (getPairs a w)) = requests w @ [c]
        \<and> params (request_config c) = None)
 \<and> (\<forall>a w. \<exists>c. requests (snd (getTickers a w)) = requests w @ [c]
        \<and> params (request_config c) = None)"
  by (simp add: request_simps)

section \<open>Construction\<close>

text \<open>
  Claim C6. A client constructed with no config has the main base URL
  \<^verbatim>\<open>https://exchange-api.lcx.com/\<close> and the kline base URL
  \<^verbatim>\<open>https://api-kline.lcx.com/\<close>; with a config, each URL the config provides replaces
  the default (and a URL it leaves out stays the default); and every call of every
  sequence of operations on the constructed client carries the client's kline URL for
  getKline and its main URL otherwise.
\<close>

theorem constructor_urls:
  "baseUrl (constructor None ax) = ''https://exchange-api.lcx.com/''
 \<and> klineUrl (constructor None ax) = ''https://api-kline.lcx.com/''
 \<and> baseUrl (constructor (Some cfg) ax) =
      (case PublicRestClientConfig.baseUrl cfg of Some u \<Rightarrow> u | None \<Rightarrow> ''https://exchange-api.lcx.com/'')
 \<and> klineUrl (constructor (Some cfg) ax) =
      (case PublicRestClientConfig.klineUrl cfg of Some u \<Rightarrow> u | None \<Rightarrow> ''https://api-kline.lcx.com/'')
 \<and> map (\<lambda>q. baseURL (request_config q))
        (requests (snd (run cs \<lparr>client = constructor cfg' ax, requests = []\<rparr>))) =
      map (expected_base (constructor cfg' ax)) cs"
  by (simp add: run_base_urls constructor_def defaultConfig_def defaultConfig_baseUrl_def
      defaultConfig_klineUrl_def split: option.split)

section \<open>The client is never written to\<close>

text \<open>
  Claim C7. No public operation changes the client (its \<open>config\<close>,
  \<open>axiosInstance\<close>, \<open>baseUrl\<close> and \<open>klineUrl\<close>), whether it returns or throws; after any
  sequence of calls the client is the one before it; and what each call of a sequence
  returns or throws is what that call returns or throws in any other state \<open>w'\<close>, so it
  depends on the call's own argument and own transport response only.
\<close>

theorem client_never_modified:
  "(\<forall>p a w. client (snd (getOrderbook p a w)) = client w)
 \<and> (\<forall>p a w. client (snd (getKline p a w)) = client w)
 \<and> (\<forall>p a w. client (snd (getTrades p a w)) = client w)
 \<and> (\<forall>a w. client (snd (getPairs a w)) = client w)
 \<and> (\<forall>p a w. client (snd (getPair p a w)) = client w)
 \<and> (\<forall>a w. client (snd (getTickers a w)) = client w)
 \<and> (\<forall>p a w. client (snd (getTicker p a w)) = client w)
 \<and> client (snd (invoke c w)) = client w
 \<and> client (snd (run cs w)) = client w
 \<and> fst (run cs w) = map (\<lambda>c. fst (invoke c w')) cs"
proof -
  have "fst (run cs w) = map (\<lambda>c. fst (invoke c w')) cs"
    by (rule run_results)
  then show ?thesis
    by (simp add: request_simps invoke_client run_client)
qed

section \<open>The two helpers are one\<close>

text \<open>
  Claim C9. Each private helper is \<open>getWithUrl\<close> at the corresponding base URL of the
  client, and getWithKlineUrl returns or throws, and makes the call, that getWithBaseUrl
  does on the same client with \<open>baseUrl\<close> replaced by \<open>klineUrl\<close>.
\<close>

theorem helpers_differ_only_in_base_url:
  "getWithBaseUrl path ps a w = getWithUrl (baseUrl (client w)) path ps a w
 \<and> getWithKlineUrl path ps a w = getWithUrl (klineUrl (client w)) path ps a w
 \<and> fst (getWithKlineUrl path ps a w) =
      fst (getWithBaseUrl path ps a (w\<lparr>client := (client w)\<lparr>baseUrl := klineUrl (client w)\<rparr>\<rparr>))
 \<and> requests (snd (getWithKlineUrl path ps a w)) =
      requests (snd (getWithBaseUrl path ps a (w\<lparr>client := (client w)\<lparr>baseUrl := klineUrl (client w)\<rparr>\<rparr>)))"
  by (simp add: helper_defs getWithUrl_def split: settled.split)

end
